theory Spec2Isabelle
  imports Main "HOL-Library.Sublist"
begin

section \<open>JavaScript values of the discovery handler\<close>

text \<open>
  The \<^verbatim>\<open>message\<close> listener of \<^verbatim>\<open>src/discovery-server.js\<close> walks the object that
  \<^verbatim>\<open>xml2js.parseString\<close> hands to its callback. The walk is plain JavaScript member
  access, so the parsed document is modelled as a JavaScript value: reading a member
  of \<^verbatim>\<open>undefined\<close> or \<^verbatim>\<open>null\<close> raises a \<^verbatim>\<open>TypeError\<close>, reading a missing
  member of anything else gives \<^verbatim>\<open>undefined\<close>.
\<close>

datatype js_error = TypeError

datatype js_value =
    Undefined
  | Null
  | Str string
  | Obj "(string \<times> js_value) list"
  | Arr "js_value list"

datatype accessor = Prop string | Idx0

text \<open>
  \<open>member_of v (Prop k)\<close> is \<^verbatim>\<open>v[k]\<close> for the element names the handler uses (none of
  them is a built-in property of strings or arrays); \<open>member_of v Idx0\<close> is \<^verbatim>\<open>v[0]\<close>.
\<close>

fun member_of :: "js_value \<Rightarrow> accessor \<Rightarrow> js_error + js_value" where
  "member_of Undefined a = Inl TypeError"
| "member_of Null a = Inl TypeError"
| "member_of (Obj kvs) (Prop k) = Inr (case map_of kvs k of None \<Rightarrow> Undefined | Some v \<Rightarrow> v)"
| "member_of (Obj kvs) Idx0 = Inr (case map_of kvs ''0'' of None \<Rightarrow> Undefined | Some v \<Rightarrow> v)"
| "member_of (Arr xs) (Prop k) = Inr Undefined"
| "member_of (Arr xs) Idx0 = Inr (case xs of [] \<Rightarrow> Undefined | x # rest \<Rightarrow> x)"
| "member_of (Str s) (Prop k) = Inr Undefined"
| "member_of (Str s) Idx0 = Inr (case s of [] \<Rightarrow> Undefined | c # rest \<Rightarrow> Str [c])"

fun get_path :: "js_value \<Rightarrow> accessor list \<Rightarrow> js_error + js_value" where
  "get_path v [] = Inr v"
| "get_path v (a # as) =
     (case member_of v a of Inl e \<Rightarrow> Inl e | Inr w \<Rightarrow> get_path w as)"

text \<open>\<^verbatim>\<open>typeof v === 'object'\<close>: objects, arrays and \<^verbatim>\<open>null\<close>.\<close>

fun typeof_object :: "js_value \<Rightarrow> bool" where
  "typeof_object (Obj kvs) = True"
| "typeof_object (Arr xs) = True"
| "typeof_object Null = True"
| "typeof_object Undefined = False"
| "typeof_object (Str s) = False"

text \<open>
  The conversion a template literal applies to an interpolated value. An array is joined
  with commas, its \<^verbatim>\<open>undefined\<close> and \<^verbatim>\<open>null\<close> elements as empty strings; an object
  prints as \<^verbatim>\<open>[object Object]\<close> unless a member hides \<^verbatim>\<open>toString\<close> (no member of a parsed
  document is a function), which raises.
\<close>

fun join_strings :: "(js_error + string) list \<Rightarrow> js_error + string" where
  "join_strings [] = Inr []"
| "join_strings [x] = x"
| "join_strings (x # y # ys) =
     (case x of
        Inl e \<Rightarrow> Inl e
      | Inr s \<Rightarrow> (case join_strings (y # ys) of Inl e \<Rightarrow> Inl e | Inr t \<Rightarrow> Inr (s @ '','' @ t)))"

fun js_to_string :: "js_value \<Rightarrow> js_error + string" where
  "js_to_string Undefined = Inr ''undefined''"
| "js_to_string Null = Inr ''null''"
| "js_to_string (Str s) = Inr s"
| "js_to_string (Obj kvs) =
     (if map_of kvs ''toString'' = None then Inr ''[object Object]'' else Inl TypeError)"
| "js_to_string (Arr xs) =
     join_strings (map (\<lambda>x. if x = Undefined \<or> x = Null then Inr [] else js_to_string x) xs)"

text \<open>
  \<^verbatim>\<open>s.indexOf(pat)\<close>: the index of the first occurrence of \<open>pat\<close> in \<open>s\<close>, or \<open>-1\<close>.
\<close>

fun index_from :: "string \<Rightarrow> string \<Rightarrow> nat \<Rightarrow> int" where
  "index_from [] pat i = (if pat = [] then int i else - 1)"
| "index_from (c # cs) pat i =
     (if prefix pat (c # cs) then int i else index_from cs pat (Suc i))"

definition indexOf :: "string \<Rightarrow> string \<Rightarrow> int" where
  "indexOf s pat = index_from s pat 0"

section \<open>The discovery server (src/discovery-server.js)\<close>

text \<open>
  A registered server is represented by the object its \<^verbatim>\<open>getDiscoveryInfo()\<close> returns
  (\<^verbatim>\<open>src/onvif-server.js\<close> is not among the sources; the handler reads the three fields
  below and nothing else of a server).
\<close>

record discovery_info =
  uuid :: string
  hostname :: string
  port :: nat

record remote_info =
  address :: string
  remote_port :: nat

text \<open>A socket object returned by \<^verbatim>\<open>dgram.createSocket\<close>, named by a handle.\<close>

datatype sock = Sock nat

text \<open>
  The values of the \<^verbatim>\<open>messageCounters\<close> map are JavaScript numbers. A counter starts
  at 0 and grows by one per response, far inside the range where doubles are exact
  integers, so a number is a natural number or \<^verbatim>\<open>NaN\<close> (what \<^verbatim>\<open>undefined + 1\<close> gives
  when a key is missing).
\<close>

datatype js_number = Num nat | NaN

fun increment :: "js_number option \<Rightarrow> js_number" where
  "increment (Some (Num n)) = Num (n + 1)"
| "increment (Some NaN) = NaN"
| "increment None = NaN"

definition digit_char :: "nat \<Rightarrow> char" where
  "digit_char n = ''0123456789'' ! n"

fun string_of_nat :: "nat \<Rightarrow> string" where
  "string_of_nat n =
     (if n < 10 then [digit_char n] else string_of_nat (n div 10) @ [digit_char (n mod 10)])"

declare string_of_nat.simps [simp del]

fun number_text :: "js_number option \<Rightarrow> string" where
  "number_text (Some (Num n)) = string_of_nat n"
| "number_text (Some NaN) = ''NaN''"
| "number_text None = ''undefined''"

record discovery_server =
  servers :: "discovery_info list"
  socket :: "sock option"
  responseSocket :: "sock option"
  messageCounters :: "string \<rightharpoonup> js_number"

datatype effect =
    Trace string
  | Error string
  | CreateSocket sock bool
  | Bind sock nat
  | AddMembership sock string string
  | Send sock string nat string
  | Close sock

subsection \<open>The constructor\<close>

fun init_counters :: "(string \<rightharpoonup> js_number) \<Rightarrow> discovery_info list \<Rightarrow> (string \<rightharpoonup> js_number)" where
  "init_counters m [] = m"
| "init_counters m (info # rest) = init_counters (m(uuid info \<mapsto> Num 0)) rest"

definition constructor :: "discovery_info list \<Rightarrow> discovery_server" where
  "constructor srvs =
     \<lparr> servers = srvs, socket = None, responseSocket = None,
       messageCounters = init_counters Map.empty srvs \<rparr>"

subsection \<open>The ProbeMatch document\<close>

text \<open>
  The response is a template literal with six interpolations. The seven literal pieces
  between them are kept character by character, line breaks and indentation included.
\<close>

definition template_0 :: string where
  \<open>template_0 =
   ''<?xml version="1.0" encoding="UTF-8"?>\<newline>'' @
   ''                            <SOAP-ENV:Envelope xmlns:SOAP-ENV="http://www.w3.org/2003/05/soap-envelope" xmlns:wsa="http://schemas.xmlsoap.org/ws/2004/08/addressing" xmlns:d="http://schemas.xmlsoap.org/ws/2005/04/discovery" xmlns:dn="http://www.onvif.org/ver10/network/wsdl">\<newline>'' @
   ''                                <SOAP-ENV:Header>\<newline>'' @
   ''                                    <wsa:MessageID>uuid:''\<close>

definition template_1 :: string where
  \<open>template_1 =
   ''</wsa:MessageID>\<newline>'' @
   ''                                    <wsa:RelatesTo>''\<close>

definition template_2 :: string where
  \<open>template_2 =
   ''</wsa:RelatesTo>\<newline>'' @
   ''                                    <wsa:To SOAP-ENV:mustUnderstand="true">http://schemas.xmlsoap.org/ws/2004/08/addressing/role/anonymous</wsa:To>\<newline>'' @
   ''                                    <wsa:Action SOAP-ENV:mustUnderstand="true">http://schemas.xmlsoap.org/ws/2005/04/discovery/ProbeMatches</wsa:Action>\<newline>'' @
   ''                                    <d:AppSequence SOAP-ENV:mustUnderstand="true" MessageNumber="''\<close>

definition template_3 :: string where
  \<open>template_3 =
   ''" InstanceId="1234567890"/>\<newline>'' @
   ''                                </SOAP-ENV:Header>\<newline>'' @
   ''                                <SOAP-ENV:Body>\<newline>'' @
   ''                                    <d:ProbeMatches>\<newline>'' @
   ''                                        <d:ProbeMatch>\<newline>'' @
   ''                                            <wsa:EndpointReference>\<newline>'' @
   ''                                                <wsa:Address>urn:uuid:''\<close>

definition template_4 :: string where
  \<open>template_4 =
   ''</wsa:Address>\<newline>'' @
   ''                                            </wsa:EndpointReference>\<newline>'' @
   ''                                            <d:Types>dn:NetworkVideoTransmitter</d:Types>\<newline>'' @
   ''                                            <d:Scopes>\<newline>'' @
   ''                                                onvif://www.onvif.org/type/video_encoder\<newline>'' @
   ''                                                onvif://www.onvif.org/type/ptz\<newline>'' @
   ''                                                onvif://www.onvif.org/hardware/Onvif\<newline>'' @
   ''                                                onvif://www.onvif.org/name/Cardinal\<newline>'' @
   ''                                                onvif://www.onvif.org/location/\<newline>'' @
   ''                                            </d:Scopes>\<newline>'' @
   ''                                            <d:XAddrs>http://''\<close>

definition template_5 :: string where
  \<open>template_5 =
   '':''\<close>

definition template_6 :: string where
  \<open>template_6 =
   ''/onvif/device_service</d:XAddrs>\<newline>'' @
   ''                                            <d:MetadataVersion>1</d:MetadataVersion>\<newline>'' @
   ''                                        </d:ProbeMatch>\<newline>'' @
   ''                                    </d:ProbeMatches>\<newline>'' @
   ''                                </SOAP-ENV:Body>\<newline>'' @
   ''                            </SOAP-ENV:Envelope>''\<close>

definition probe_match_xml ::
  "string \<Rightarrow> string \<Rightarrow> string \<Rightarrow> string \<Rightarrow> string \<Rightarrow> string \<Rightarrow> string" where
  "probe_match_xml message_id relates_to message_no dev_uuid dev_hostname dev_port =
     template_0 @ message_id @ template_1 @ relates_to @ template_2 @ message_no @
     template_3 @ dev_uuid @ template_4 @ dev_hostname @ template_5 @ dev_port @ template_6"

subsection \<open>The message listener\<close>

text \<open>
  Lines 31 to 43: the message ID is read outside any \<^verbatim>\<open>try\<close>, the type filter inside
  one whose handler sets it to the empty string; then each of the two is replaced by its
  \<^verbatim>\<open>_\<close> member when it is an object.
\<close>

definition message_id_path :: "accessor list" where
  "message_id_path = [Prop ''Envelope'', Prop ''Header'', Idx0, Prop ''MessageID'', Idx0]"

definition types_path :: "accessor list" where
  "types_path =
     [Prop ''Envelope'', Prop ''Body'', Idx0, Prop ''Probe'', Idx0, Prop ''Types'', Idx0]"

definition text_of :: "js_value \<Rightarrow> js_error + js_value" where
  "text_of v = (if typeof_object v then member_of v (Prop ''_'') else Inr v)"

definition probe_fields :: "js_value \<Rightarrow> js_error + (js_value \<times> js_value)" where
  "probe_fields result =
     (case get_path result message_id_path of
        Inl e \<Rightarrow> Inl e
      | Inr probeUuid0 \<Rightarrow>
          (let probeType0 = (case get_path result types_path of Inl e \<Rightarrow> Str [] | Inr v \<Rightarrow> v) in
           case text_of probeType0 of
             Inl e \<Rightarrow> Inl e
           | Inr probeType \<Rightarrow>
               (case text_of probeUuid0 of
                  Inl e \<Rightarrow> Inl e
                | Inr probeUuid \<Rightarrow> Inr (probeUuid, probeType))))"

text \<open>
  Line 46: \<^verbatim>\<open>probeType === '' || probeType.indexOf('NetworkVideoTransmitter') > -1\<close>.
  On an array \<^verbatim>\<open>indexOf\<close> searches the elements; on anything else but a string the call
  raises.
\<close>

fun wants_response :: "js_value \<Rightarrow> js_error + bool" where
  "wants_response (Str s) = Inr (s = [] \<or> indexOf s ''NetworkVideoTransmitter'' > - 1)"
| "wants_response (Arr xs) = Inr (Str ''NetworkVideoTransmitter'' \<in> set xs)"
| "wants_response (Obj kvs) = Inl TypeError"
| "wants_response Undefined = Inl TypeError"
| "wants_response Null = Inl TypeError"

text \<open>
  Lines 50 to 90, the \<^verbatim>\<open>forEach\<close> over the servers. \<open>gen i\<close> is what \<^verbatim>\<open>uuid.v1()\<close>
  returns for the \<open>i\<close>-th response of this probe. The counter is stored before the send,
  and the send raises when \<^verbatim>\<open>responseSocket\<close> is \<^verbatim>\<open>null\<close>. The result is the state, the
  effects in order, and the error that ended the loop, if any.
\<close>

fun send_matches ::
  "discovery_server \<Rightarrow> (nat \<Rightarrow> string) \<Rightarrow> js_value \<Rightarrow> remote_info \<Rightarrow> nat \<Rightarrow>
   discovery_info list \<Rightarrow> discovery_server \<times> effect list \<times> js_error option" where
  "send_matches st gen probeUuid remote i [] = (st, [], None)"
| "send_matches st gen probeUuid remote i (info # rest) =
     (let messageNo = messageCounters st (uuid info) in
      case js_to_string probeUuid of
        Inl e \<Rightarrow> (st, [], Some e)
      | Inr relates_to \<Rightarrow>
          (let response =
                 probe_match_xml (gen i) relates_to (number_text messageNo) (uuid info)
                   (hostname info) (string_of_nat (port info));
               st1 = st\<lparr> messageCounters := (messageCounters st)(uuid info \<mapsto> increment messageNo) \<rparr>
           in case responseSocket st1 of
                None \<Rightarrow> (st1, [], Some TypeError)
              | Some r \<Rightarrow>
                  (case send_matches st1 gen probeUuid remote (Suc i) rest of
                     (st2, effs, err) \<Rightarrow>
                       (st2, Send r response (remote_port remote) (address remote) # effs, err))))"

datatype parse_result = ParseError | Parsed js_value

definition on_parsed ::
  "discovery_server \<Rightarrow> (nat \<Rightarrow> string) \<Rightarrow> js_value \<Rightarrow> remote_info \<Rightarrow>
   discovery_server \<times> effect list \<times> js_error option" where
  "on_parsed st gen result remote =
     (case probe_fields result of
        Inl e \<Rightarrow> (st, [], Some e)
      | Inr (probeUuid, probeType) \<Rightarrow>
          (case wants_response probeType of
             Inl e \<Rightarrow> (st, [], Some e)
           | Inr False \<Rightarrow> (st, [], None)
           | Inr True \<Rightarrow>
               (case send_matches st gen probeUuid remote 0 (servers st) of
                  (st', effs, err) \<Rightarrow>
                    (st',
                     Trace (''Discovery probe received from '' @ address remote @ '':'' @
                            string_of_nat (remote_port remote)) # effs,
                     err))))"

definition on_message ::
  "discovery_server \<Rightarrow> (nat \<Rightarrow> string) \<Rightarrow> parse_result \<Rightarrow> remote_info \<Rightarrow>
   discovery_server \<times> effect list \<times> js_error option" where
  "on_message st gen msg remote =
     (case msg of
        ParseError \<Rightarrow> (st, [Trace ''Failed to parse discovery message:''], None)
      | Parsed result \<Rightarrow> on_parsed st gen result remote)"

subsection \<open>start and the bind callback\<close>

text \<open>
  \<^verbatim>\<open>start()\<close> creates the two sockets (\<open>s\<close> and \<open>r\<close> are the objects
  \<^verbatim>\<open>dgram.createSocket\<close> returns), installs the listeners and binds the first to port 3702.
\<close>

definition start :: "discovery_server \<Rightarrow> sock \<Rightarrow> sock \<Rightarrow> discovery_server \<times> effect list" where
  "start st s r =
     (st\<lparr> socket := Some s, responseSocket := Some r \<rparr>,
      [CreateSocket s True, CreateSocket r False, Bind s 3702])"

text \<open>
  The bind callback collects the truthy hostnames in a \<^verbatim>\<open>Set\<close>, which keeps the first
  occurrence of each in insertion order, and joins the group on each. \<open>fails h\<close> says
  whether \<^verbatim>\<open>addMembership\<close> raises for interface \<open>h\<close>; with \<^verbatim>\<open>socket\<close> null the call itself
  raises inside the \<^verbatim>\<open>try\<close>.
\<close>

fun set_add :: "string list \<Rightarrow> string \<Rightarrow> string list" where
  "set_add hs h = (if h \<in> set hs then hs else hs @ [h])"

fun collect_hostnames :: "string list \<Rightarrow> discovery_info list \<Rightarrow> string list" where
  "collect_hostnames hs [] = hs"
| "collect_hostnames hs (info # rest) =
     collect_hostnames (if hostname info \<noteq> [] then set_add hs (hostname info) else hs) rest"

fun join_group :: "sock option \<Rightarrow> (string \<Rightarrow> bool) \<Rightarrow> string \<Rightarrow> effect list" where
  "join_group None fails h = [Error (''Failed to join multicast group on '' @ h @ '':'')]"
| "join_group (Some s) fails h =
     [AddMembership s ''239.255.255.250'' h,
      if fails h then Error (''Failed to join multicast group on '' @ h @ '':'')
      else Trace (''Joined multicast group on '' @ h)]"

definition on_bound :: "discovery_server \<Rightarrow> (string \<Rightarrow> bool) \<Rightarrow> effect list" where
  "on_bound st fails =
     Trace ''Discovery server bound to port 3702'' #
     concat (map (join_group (socket st) fails) (collect_hostnames [] (servers st)))"

subsection \<open>stop\<close>

definition stop :: "discovery_server \<Rightarrow> discovery_server \<times> effect list" where
  "stop st =
     (let (st1, e1) = (case socket st of
                         Some s \<Rightarrow> (st\<lparr> socket := None \<rparr>, [Close s])
                       | None \<Rightarrow> (st, []));
          (st2, e2) = (case responseSocket st1 of
                         Some r \<Rightarrow> (st1\<lparr> responseSocket := None \<rparr>, [Close r])
                       | None \<Rightarrow> (st1, []))
      in (st2, e1 @ e2))"

subsection \<open>Sequences of calls\<close>

text \<open>
  What can happen to a discovery server while the process runs: \<^verbatim>\<open>start()\<close>, \<^verbatim>\<open>stop()\<close>
  and the delivery of a datagram to the \<^verbatim>\<open>message\<close> listener. The bind callback changes
  no field of the object. \<open>run_calls\<close> is the state after a sequence of them.
\<close>

datatype call = Start sock sock | Stop | Message parse_result remote_info "nat \<Rightarrow> string"

fun perform :: "discovery_server \<Rightarrow> call \<Rightarrow> discovery_server" where
  "perform st (Start s r) = fst (start st s r)"
| "perform st Stop = fst (stop st)"
| "perform st (Message msg remote gen) = fst (on_message st gen msg remote)"

definition run_calls :: "discovery_server \<Rightarrow> call list \<Rightarrow> discovery_server" where
  "run_calls st calls = foldl perform st calls"

section \<open>The startup sequence (main.js)\<close>

text \<open>
  One entry of \<^verbatim>\<open>config.onvif\<close>, with the members the startup loop reads. A port that the
  configuration leaves out is \<open>None\<close>; JavaScript treats a port as false when it is left
  out or is 0.
\<close>

record onvif_config =
  name :: string
  mac :: string
  ports_server :: nat
  ports_rtsp :: "nat option"
  ports_snapshot :: "nat option"
  target_hostname :: string
  target_ports_rtsp :: "nat option"
  target_ports_snapshot :: "nat option"

fun truthy_port :: "nat option \<Rightarrow> bool" where
  "truthy_port None = False"
| "truthy_port (Some p) = (p \<noteq> 0)"

record server =
  config :: onvif_config
  resolved :: "string option"

text \<open>
  Modelled from the spec: \<^verbatim>\<open>src/onvif-server.js\<close> (\<^verbatim>\<open>createServer\<close>, \<^verbatim>\<open>getHostname\<close>) is
  not among the sources. The spec says the host IP of a device is derived once, at
  construction, by matching its MAC address against the host's network interfaces, and
  that it is absent when no interface matches. \<open>interfaces\<close> is that table, MAC address
  to IP address.
\<close>

definition createServer :: "(string \<times> string) list \<Rightarrow> onvif_config \<Rightarrow> server" where
  "createServer interfaces onvifConfig =
     \<lparr> config = onvifConfig, resolved = map_of interfaces (mac onvifConfig) \<rparr>"

text \<open>
  Modelled from the spec: \<^verbatim>\<open>getHostname()\<close> of the absent \<^verbatim>\<open>src/onvif-server.js\<close> returns
  the host IP resolved at construction, or nothing when no interface matched.
\<close>

definition getHostname :: "server \<Rightarrow> string option" where
  "getHostname srv = resolved srv"

record proxy =
  sourceHostname :: string
  sourcePort :: "nat option"
  targetHostname :: string
  targetPort :: "nat option"

datatype main_effect =
    LogInfo string
  | LogError string
  | StartServer server
  | EnableDebugOutput server
  | Sleep nat
  | Exit int
  | CreateDiscoveryServer "server list"
  | DiscoveryStart
  | CreateProxy proxy

text \<open>Lines 141 to 154: what the loop does for a device whose hostname is truthy.\<close>

definition start_device :: "bool \<Rightarrow> server \<Rightarrow> string \<Rightarrow> main_effect list" where
  "start_device debug srv h =
     [LogInfo (''Starting virtual onvif server for '' @ name (config srv) @ '' on '' @
               mac (config srv) @ '' '' @ h @ '':'' @
               string_of_nat (ports_server (config srv)) @ '' ...''),
      StartServer srv] @
     (if debug then [EnableDebugOutput srv] else []) @
     [LogInfo ''  Started!'', LogInfo [], Sleep 2000]"

text \<open>Lines 157 to 172: the routes pushed for one device.\<close>

definition push_proxies :: "bool \<Rightarrow> string \<Rightarrow> onvif_config \<Rightarrow> proxy list \<Rightarrow> proxy list" where
  "push_proxies useDirectUrls h onvifConfig proxies =
     (if \<not> useDirectUrls then
        (let proxies1 =
               (if truthy_port (ports_rtsp onvifConfig) \<and> truthy_port (target_ports_rtsp onvifConfig)
                then proxies @
                  [\<lparr> sourceHostname = h, sourcePort = ports_rtsp onvifConfig,
                     targetHostname = target_hostname onvifConfig,
                     targetPort = target_ports_rtsp onvifConfig \<rparr>]
                else proxies)
         in if truthy_port (ports_snapshot onvifConfig) \<and>
               truthy_port (target_ports_snapshot onvifConfig)
            then proxies1 @
              [\<lparr> sourceHostname = h, sourcePort = ports_snapshot onvifConfig,
                 targetHostname = target_hostname onvifConfig,
                 targetPort = target_ports_snapshot onvifConfig \<rparr>]
            else proxies1)
      else proxies)"

text \<open>
  Lines 134 to 180, the \<^verbatim>\<open>for\<close> loop with its two arrays. The result is the effects in
  order and, unless \<^verbatim>\<open>process.exit\<close> was reached, the arrays after the loop.
\<close>

fun start_devices ::
  "(string \<times> string) list \<Rightarrow> bool \<Rightarrow> bool \<Rightarrow> onvif_config list \<Rightarrow> server list \<Rightarrow> proxy list \<Rightarrow>
   main_effect list \<times> (server list \<times> proxy list) option" where
  "start_devices interfaces debug useDirectUrls [] srvs proxies = ([], Some (srvs, proxies))"
| "start_devices interfaces debug useDirectUrls (onvifConfig # rest) srvs proxies =
     (let srv = createServer interfaces onvifConfig in
      case getHostname srv of
        None \<Rightarrow>
          ([LogError (''Failed to find IP address for MAC address '' @ mac onvifConfig),
            Exit (- 1)], None)
      | Some h \<Rightarrow>
          if h = [] then
            ([LogError (''Failed to find IP address for MAC address '' @ mac onvifConfig),
              Exit (- 1)], None)
          else
            (case start_devices interfaces debug useDirectUrls rest (srvs @ [srv])
                    (push_proxies useDirectUrls h onvifConfig proxies) of
               (effs, r) \<Rightarrow> (start_device debug srv h @ effs, r)))"

definition start_proxy :: "proxy \<Rightarrow> main_effect list" where
  "start_proxy p =
     [LogInfo (''Starting tcp proxy from '' @ sourceHostname p @ '':'' @
               number_text (map_option Num (sourcePort p)) @ '' to '' @ targetHostname p @
               '':'' @ number_text (map_option Num (targetPort p)) @ '' ...''),
      CreateProxy p, LogInfo ''  Started!'', LogInfo []]"

text \<open>Lines 123 to 209: the banner, the loop, the discovery server, the proxies.\<close>

definition run_config ::
  "(string \<times> string) list \<Rightarrow> bool \<Rightarrow> bool \<Rightarrow> onvif_config list \<Rightarrow> main_effect list" where
  "run_config interfaces debug useDirectUrls configs =
     (if useDirectUrls
      then [LogInfo ''Direct URLs enabled - proxies will be bypassed'', LogInfo []]
      else []) @
     (case start_devices interfaces debug useDirectUrls configs [] [] of
        (effs, None) \<Rightarrow> effs
      | (effs, Some (srvs, proxies)) \<Rightarrow>
          effs @
          (if srvs \<noteq> []
           then [LogInfo ''Starting WS-Discovery server for all virtual devices ...'',
                 CreateDiscoveryServer srvs, DiscoveryStart, LogInfo ''  Started!'', LogInfo []]
           else []) @
          concat (map start_proxy proxies))"

section \<open>Vocabulary of the properties\<close>

text \<open>
  The counters after one response per listed server: each listed key is incremented,
  every other key is left as it is.
\<close>

definition bumped :: "(string \<rightharpoonup> js_number) \<Rightarrow> discovery_info list \<Rightarrow> (string \<rightharpoonup> js_number)" where
  "bumped m infos = (\<lambda>u. if u \<in> uuid ` set infos then Some (increment (m u)) else m u)"

text \<open>Projections of an effect list: the datagrams sent, the group joins attempted.\<close>

fun is_send :: "effect \<Rightarrow> bool" where
  "is_send (Send r d p a) = True"
| "is_send e = False"

fun is_join :: "effect \<Rightarrow> bool" where
  "is_join (AddMembership s g h) = True"
| "is_join e = False"

text \<open>\<open>carries doc piece\<close>: the text \<open>piece\<close> occurs in the document \<open>doc\<close>.\<close>

definition carries :: "string \<Rightarrow> string \<Rightarrow> bool" where
  "carries doc piece = sublist piece doc"


text \<open>
  For the startup loop: whether the hostname of a device is truthy, the hostname itself,
  the proxies created by a run, and the lifecycle events of a run (server starts, delays,
  the discovery server, process exit), log lines left out.
\<close>

definition resolves :: "(string \<times> string) list \<Rightarrow> onvif_config \<Rightarrow> bool" where
  "resolves interfaces c =
     (case getHostname (createServer interfaces c) of None \<Rightarrow> False | Some h \<Rightarrow> h \<noteq> [])"

definition host_of :: "(string \<times> string) list \<Rightarrow> onvif_config \<Rightarrow> string" where
  "host_of interfaces c =
     (case getHostname (createServer interfaces c) of None \<Rightarrow> [] | Some h \<Rightarrow> h)"

fun proxy_of :: "main_effect \<Rightarrow> proxy list" where
  "proxy_of (CreateProxy p) = [p]"
| "proxy_of e = []"

fun lifecycle :: "main_effect \<Rightarrow> bool" where
  "lifecycle (StartServer s) = True"
| "lifecycle (Sleep n) = True"
| "lifecycle (CreateDiscoveryServer ss) = True"
| "lifecycle DiscoveryStart = True"
| "lifecycle (Exit n) = True"
| "lifecycle e = False"

text \<open>
  The relay routes of one device in the words of the specification: none in direct-URL
  mode; otherwise one for RTSP when both the device's RTSP port and the target's are
  configured, and one for snapshots under the same condition on the snapshot ports.
  A configuration is valid when no port it gives is 0.
\<close>

definition configured :: "nat option \<Rightarrow> bool" where
  "configured p = (p \<noteq> None)"

definition relay_routes :: "bool \<Rightarrow> string \<Rightarrow> onvif_config \<Rightarrow> proxy list" where
  "relay_routes useDirectUrls h c =
     (if useDirectUrls then []
      else
        (if configured (ports_rtsp c) \<and> configured (target_ports_rtsp c)
         then [\<lparr> sourceHostname = h, sourcePort = ports_rtsp c,
                  targetHostname = target_hostname c, targetPort = target_ports_rtsp c \<rparr>]
         else []) @
        (if configured (ports_snapshot c) \<and> configured (target_ports_snapshot c)
         then [\<lparr> sourceHostname = h, sourcePort = ports_snapshot c,
                  targetHostname = target_hostname c, targetPort = target_ports_snapshot c \<rparr>]
         else []))"

definition ports_valid :: "onvif_config \<Rightarrow> bool" where
  "ports_valid c =
     (ports_rtsp c \<noteq> Some 0 \<and> ports_snapshot c \<noteq> Some 0 \<and>
      target_ports_rtsp c \<noteq> Some 0 \<and> target_ports_snapshot c \<noteq> Some 0)"

subsection \<open>Example inputs\<close>

text \<open>
  A probe document as \<^verbatim>\<open>xml2js\<close> returns it with prefixes stripped: every child element is
  an array, \<open>message_id\<close> is the content of \<^verbatim>\<open>MessageID\<close> and \<open>probe_members\<close> are the
  members of the \<^verbatim>\<open>Probe\<close> element.
\<close>

definition probe_document :: "js_value \<Rightarrow> (string \<times> js_value) list \<Rightarrow> js_value" where
  "probe_document message_id probe_members =
     Obj [(''Envelope'',
           Obj [(''Header'', Arr [Obj [(''MessageID'', Arr [message_id])]]),
                (''Body'', Arr [Obj [(''Probe'', Arr [Obj probe_members])]])])]"

definition typed_probe :: js_value where
  "typed_probe =
     probe_document (Str ''uuid:p1'') [(''Types'', Arr [Str ''dn:NetworkVideoTransmitter''])]"

definition other_probe :: js_value where
  "other_probe = probe_document (Str ''uuid:p2'') [(''Types'', Arr [Str ''tns:SomeOtherDevice''])]"



definition numbered_ids :: "nat \<Rightarrow> string" where
  "numbered_ids k = ''id-'' @ string_of_nat k"

definition device :: "string \<Rightarrow> string \<Rightarrow> nat \<Rightarrow> discovery_info" where
  "device u h p = \<lparr> uuid = u, hostname = h, port = p \<rparr>"

definition prober :: remote_info where
  "prober = \<lparr> address = ''10.0.0.9'', remote_port = 40000 \<rparr>"

definition two_devices :: "discovery_info list" where
  "two_devices = [device ''uuid-1'' ''10.0.0.5'' 8081, device ''uuid-2'' ''10.0.0.6'' 8082]"

definition started :: "discovery_info list \<Rightarrow> discovery_server" where
  "started srvs = fst (start (constructor srvs) (Sock 0) (Sock 1))"

definition camera :: "string \<Rightarrow> string \<Rightarrow> nat \<Rightarrow> onvif_config" where
  "camera n m p =
     \<lparr> name = n, mac = m, ports_server = p, ports_rtsp = Some 8554, ports_snapshot = None,
       target_hostname = ''192.168.1.20'', target_ports_rtsp = Some 554,
       target_ports_snapshot = Some 80 \<rparr>"

section \<open>Lemmas about the discovery server\<close>

subsection \<open>Searching a string\<close>

lemma index_from_found: "(index_from s pat i > - 1) = sublist pat s"
proof (induction s arbitrary: i)
  case Nil
  then show ?case by simp
next
  case (Cons c cs)
  then show ?case by (simp add: sublist_Cons_right)
qed

lemma indexOf_found: "(indexOf s pat > - 1) = sublist pat s"
  by (simp add: indexOf_def index_from_found)

subsection \<open>The response loop\<close>

lemma send_matches_distinct:
  "responseSocket st = Some r \<Longrightarrow> js_to_string pu = Inr rel \<Longrightarrow> distinct (map uuid infos) \<Longrightarrow>
   send_matches st gen pu remote i infos =
     (st\<lparr> messageCounters := bumped (messageCounters st) infos \<rparr>,
      map (\<lambda>(k, info).
             Send r (probe_match_xml (gen k) rel (number_text (messageCounters st (uuid info)))
                       (uuid info) (hostname info) (string_of_nat (port info)))
               (remote_port remote) (address remote))
          (enumerate i infos),
      None)"
proof (induction infos arbitrary: st i)
  case Nil
  then show ?case by (simp add: bumped_def)
next
  case (Cons info infos)
  let ?st1 = "st\<lparr> messageCounters := (messageCounters st)(uuid info \<mapsto> increment (messageCounters st (uuid info))) \<rparr>"
  have r1: "responseSocket ?st1 = Some r" using Cons.prems(1) by simp
  have d: "distinct (map uuid infos)" and fresh: "uuid info \<notin> uuid ` set infos"
    using Cons.prems(3) by auto
  have same: "\<And>x. x \<in> set infos \<Longrightarrow> messageCounters ?st1 (uuid x) = messageCounters st (uuid x)"
    using fresh by (auto simp: image_iff)
  have effs: "map (\<lambda>(k, x).
             Send r (probe_match_xml (gen k) rel (number_text (messageCounters ?st1 (uuid x)))
                       (uuid x) (hostname x) (string_of_nat (port x)))
               (remote_port remote) (address remote))
          (enumerate (Suc i) infos) =
        map (\<lambda>(k, x).
             Send r (probe_match_xml (gen k) rel (number_text (messageCounters st (uuid x)))
                       (uuid x) (hostname x) (string_of_nat (port x)))
               (remote_port remote) (address remote))
          (enumerate (Suc i) infos)"
  proof (rule map_cong [OF refl])
    fix p assume p: "p \<in> set (enumerate (Suc i) infos)"
    then have "infos ! (fst p - Suc i) = snd p" and "fst p - Suc i < length infos"
      by (auto simp: in_set_enumerate_eq)
    then have "snd p \<in> set infos"
      using nth_mem by metis
    then show "(case p of (k, x) \<Rightarrow>
             Send r (probe_match_xml (gen k) rel (number_text (messageCounters ?st1 (uuid x)))
                       (uuid x) (hostname x) (string_of_nat (port x)))
               (remote_port remote) (address remote)) =
          (case p of (k, x) \<Rightarrow>
             Send r (probe_match_xml (gen k) rel (number_text (messageCounters st (uuid x)))
                       (uuid x) (hostname x) (string_of_nat (port x)))
               (remote_port remote) (address remote))"
      using same [of "snd p"] by (cases p) simp
  qed
  have cnt: "bumped (messageCounters ?st1) infos = bumped (messageCounters st) (info # infos)"
    using fresh by (auto simp: bumped_def fun_eq_iff)
  note ih = Cons.IH [OF r1 Cons.prems(2) d, of "Suc i", unfolded effs cnt]
  show ?case
    using Cons.prems(1,2) ih by (simp add: Let_def)
qed

lemma send_matches_counters_mono:
  "messageCounters st u = Some (Num n) \<Longrightarrow>
   \<exists>m\<ge>n. messageCounters (fst (send_matches st gen pu remote i infos)) u = Some (Num m)"
proof (induction infos arbitrary: st i n)
  case Nil
  then show ?case by auto
next
  case (Cons info infos)
  show ?case
  proof (cases "js_to_string pu")
    case (Inl e)
    with Cons.prems show ?thesis by auto
  next
    case (Inr rel)
    let ?st1 = "st\<lparr> messageCounters := (messageCounters st)(uuid info \<mapsto> increment (messageCounters st (uuid info))) \<rparr>"
    obtain n1 where n1: "messageCounters ?st1 u = Some (Num n1)" "n \<le> n1"
      using Cons.prems by (cases "u = uuid info") auto
    show ?thesis
    proof (cases "responseSocket st")
      case None
      with Inr have "fst (send_matches st gen pu remote i (info # infos)) = ?st1"
        by (simp add: Let_def)
      with n1 show ?thesis by auto
    next
      case (Some r)
      with Inr have "fst (send_matches st gen pu remote i (info # infos)) =
          fst (send_matches ?st1 gen pu remote (Suc i) infos)"
        by (simp add: Let_def split: prod.splits)
      with Cons.IH [OF n1(1), of "Suc i"] n1(2) show ?thesis
        by (metis le_trans)
    qed
  qed
qed

lemma send_matches_servers:
  "servers (fst (send_matches st gen pu remote i infos)) = servers st \<and>
   socket (fst (send_matches st gen pu remote i infos)) = socket st \<and>
   responseSocket (fst (send_matches st gen pu remote i infos)) = responseSocket st"
proof (induction infos arbitrary: st i)
  case Nil
  then show ?case by simp
next
  case (Cons info infos)
  let ?st1 = "st\<lparr> messageCounters := (messageCounters st)(uuid info \<mapsto> increment (messageCounters st (uuid info))) \<rparr>"
  show ?case
  proof (cases "js_to_string pu")
    case (Inl e)
    then show ?thesis by simp
  next
    case (Inr rel)
    show ?thesis
    proof (cases "responseSocket st")
      case None
      with Inr show ?thesis by (simp add: Let_def)
    next
      case (Some r)
      with Inr have "fst (send_matches st gen pu remote i (info # infos)) =
          fst (send_matches ?st1 gen pu remote (Suc i) infos)"
        by (simp add: Let_def split: prod.splits)
      with Cons.IH [of ?st1 "Suc i"] show ?thesis by simp
    qed
  qed
qed

lemma send_matches_count:
  "responseSocket st = Some r \<Longrightarrow> js_to_string pu = Inr rel \<Longrightarrow>
   length (filter is_send (fst (snd (send_matches st gen pu remote i infos)))) = length infos \<and>
   snd (snd (send_matches st gen pu remote i infos)) = None"
proof (induction infos arbitrary: st i)
  case Nil
  then show ?case by simp
next
  case (Cons info infos)
  let ?st1 = "st\<lparr> messageCounters := (messageCounters st)(uuid info \<mapsto> increment (messageCounters st (uuid info))) \<rparr>"
  have r1: "responseSocket ?st1 = Some r" using Cons.prems(1) by simp
  show ?case
    using Cons.IH [OF r1 Cons.prems(2), of "Suc i"] Cons.prems
    by (auto simp: Let_def split: prod.splits)
qed

subsection \<open>The listener and sequences of calls\<close>

lemma init_counters_lookup:
  "init_counters m srvs u = (if u \<in> uuid ` set srvs then Some (Num 0) else m u)"
  by (induction srvs arbitrary: m) auto

lemma stop_fields:
  "servers (fst (stop st)) = servers st \<and> messageCounters (fst (stop st)) = messageCounters st"
  by (cases "socket st"; cases "responseSocket st") (simp_all add: stop_def)

lemma on_message_state:
  "fst (on_message st gen msg remote) = st \<or>
   (\<exists>pu. fst (on_message st gen msg remote) =
          fst (send_matches st gen pu remote 0 (servers st)))"
  by (auto simp: on_message_def on_parsed_def
      split: parse_result.splits sum.splits prod.splits bool.splits)
     (metis fst_conv)

lemma on_message_servers: "servers (fst (on_message st gen msg remote)) = servers st"
  using on_message_state [of st gen msg remote] send_matches_servers [of st gen _ remote 0 "servers st"]
  by auto

lemma on_message_counters_mono:
  assumes "messageCounters st u = Some (Num n)"
  shows "\<exists>m\<ge>n. messageCounters (fst (on_message st gen msg remote)) u = Some (Num m)"
proof (cases msg)
  case ParseError
  with assms show ?thesis by (simp add: on_message_def)
next
  case (Parsed result)
  show ?thesis
  proof (cases "probe_fields result")
    case (Inl e)
    with assms Parsed show ?thesis by (simp add: on_message_def on_parsed_def)
  next
    case (Inr f)
    obtain pu pt where f: "f = (pu, pt)" by (cases f)
    show ?thesis
    proof (cases "wants_response pt")
      case (Inl e)
      with assms Parsed Inr f show ?thesis by (simp add: on_message_def on_parsed_def)
    next
      case w: (Inr b)
      show ?thesis
      proof (cases b)
        case False
        with assms Parsed Inr f w show ?thesis by (simp add: on_message_def on_parsed_def)
      next
        case True
        then have "fst (on_message st gen msg remote) =
                   fst (send_matches st gen pu remote 0 (servers st))"
          using Parsed Inr f w by (simp add: on_message_def on_parsed_def split: prod.splits)
        with send_matches_counters_mono [OF assms] show ?thesis by simp
      qed
    qed
  qed
qed

lemma perform_servers: "servers (perform st c) = servers st"
  by (cases c) (simp_all add: start_def stop_fields on_message_servers)

lemma perform_counters_mono:
  "messageCounters st u = Some (Num n) \<Longrightarrow>
   \<exists>m\<ge>n. messageCounters (perform st c) u = Some (Num m)"
  by (cases c) (simp_all add: start_def stop_fields on_message_counters_mono)

lemma run_calls_servers: "servers (run_calls st calls) = servers st"
  unfolding run_calls_def
  by (induction calls arbitrary: st) (simp_all add: perform_servers)

lemma run_calls_counters_mono:
  "messageCounters st u = Some (Num n) \<Longrightarrow>
   \<exists>m\<ge>n. messageCounters (run_calls st calls) u = Some (Num m)"
  unfolding run_calls_def
proof (induction calls arbitrary: st n)
  case Nil
  then show ?case by simp
next
  case (Cons c calls)
  from perform_counters_mono [OF Cons.prems, of c]
  obtain k where k: "n \<le> k" "messageCounters (perform st c) u = Some (Num k)" by blast
  from Cons.IH [OF k(2)] k(1) show ?case
    by (auto intro: le_trans)
qed

lemma run_calls_append: "run_calls st (xs @ ys) = run_calls (run_calls st xs) ys"
  by (simp add: run_calls_def)

lemma run_calls_snoc: "run_calls st (xs @ [c]) = perform (run_calls st xs) c"
  by (simp add: run_calls_def)

lemma on_message_accepted:
  assumes "responseSocket st = Some r" and "distinct (map uuid (servers st))"
    and "probe_fields result = Inr (pu, pt)" and "wants_response pt = Inr True"
    and "js_to_string pu = Inr rel"
  shows "on_message st gen (Parsed result) remote =
     (st\<lparr> messageCounters := bumped (messageCounters st) (servers st) \<rparr>,
      Trace (''Discovery probe received from '' @ address remote @ '':'' @
             string_of_nat (remote_port remote)) #
      map (\<lambda>(k, info).
             Send r (probe_match_xml (gen k) rel (number_text (messageCounters st (uuid info)))
                       (uuid info) (hostname info) (string_of_nat (port info)))
               (remote_port remote) (address remote))
          (enumerate 0 (servers st)),
      None)"
  using assms(3,4) send_matches_distinct [OF assms(1) assms(5) assms(2), of gen remote 0]
  by (simp add: on_message_def on_parsed_def)

lemma on_message_rejected:
  "probe_fields result = Inr (pu, pt) \<Longrightarrow> wants_response pt = Inr False \<Longrightarrow>
   on_message st gen (Parsed result) remote = (st, [], None)"
  by (simp add: on_message_def on_parsed_def)


subsection \<open>The pieces of the response document\<close>

lemma t0_end: "suffix ''<wsa:MessageID>uuid:'' template_0" by code_simp

lemma t1_start: "prefix ''</wsa:MessageID>'' template_1" by code_simp











lemma between:
  "suffix a l \<Longrightarrow> prefix b r \<Longrightarrow> sublist (a @ x @ b) (pre @ l @ x @ r @ post)"
proof -
  assume "suffix a l" and "prefix b r"
  then obtain l0 r0 where l: "l = l0 @ a" and r: "r = b @ r0"
    by (auto simp: suffix_def prefix_def)
  have "pre @ l @ x @ r @ post = (pre @ l0) @ (a @ x @ b) @ (r0 @ post)"
    by (simp add: l r)
  then show ?thesis
    unfolding sublist_def by blast
qed

lemma carries_message_id:
  "carries (probe_match_xml mid rel no u h p) (''<wsa:MessageID>uuid:'' @ mid @ ''</wsa:MessageID>'')"
  unfolding carries_def probe_match_xml_def
  using between [OF t0_end t1_start, of mid "[]"] by simp







subsection \<open>The bind callback\<close>

lemma collect_hostnames_set:
  "set (collect_hostnames hs infos) = set hs \<union> {h \<in> hostname ` set infos. h \<noteq> []}"
  by (induction infos arbitrary: hs) auto

lemma collect_hostnames_distinct:
  "distinct hs \<Longrightarrow> distinct (collect_hostnames hs infos)"
  by (induction infos arbitrary: hs) auto

lemma joins_of_groups:
  "filter is_join (concat (map (join_group (Some s) fails) hs)) =
   map (AddMembership s ''239.255.255.250'') hs"
  by (induction hs) auto

subsection \<open>The example inputs\<close>

lemma typed_probe_fields:
  "probe_fields typed_probe = Inr (Str ''uuid:p1'', Str ''dn:NetworkVideoTransmitter'')"
  by (simp add: typed_probe_def probe_fields_def probe_document_def message_id_path_def
      types_path_def text_of_def)

lemma other_probe_fields:
  "probe_fields other_probe = Inr (Str ''uuid:p2'', Str ''tns:SomeOtherDevice'')"
  by (simp add: other_probe_def probe_fields_def probe_document_def message_id_path_def
      types_path_def text_of_def)

lemma accepts_transmitter: "wants_response (Str ''dn:NetworkVideoTransmitter'') = Inr True"
  by (simp add: indexOf_def)

lemma started_fields:
  "responseSocket (started srvs) = Some (Sock 1) \<and> socket (started srvs) = Some (Sock 0) \<and>
   servers (started srvs) = srvs \<and>
   messageCounters (started srvs) = messageCounters (constructor srvs)"
  by (simp add: started_def start_def constructor_def)

section \<open>Lemmas about the startup sequence\<close>

lemma push_proxies_append:
  "push_proxies u h c ps = ps @ push_proxies u h c []"
  by (simp add: push_proxies_def Let_def)

lemma start_devices_resolved:
  "\<forall>c\<in>set cs. resolves ifs c \<Longrightarrow>
   start_devices ifs d u cs srvs ps =
     (concat (map (\<lambda>c. start_device d (createServer ifs c) (host_of ifs c)) cs),
      Some (srvs @ map (createServer ifs) cs,
            ps @ concat (map (\<lambda>c. push_proxies u (host_of ifs c) c []) cs)))"
proof (induction cs arbitrary: srvs ps)
  case Nil
  then show ?case by simp
next
  case (Cons c cs)
  then obtain h where h: "getHostname (createServer ifs c) = Some h" "h \<noteq> []"
    by (auto simp: resolves_def split: option.splits)
  from Cons.prems have rest: "\<forall>c\<in>set cs. resolves ifs c" by simp
  show ?case
    using h Cons.IH [OF rest] push_proxies_append [of u h c ps]
    by (simp add: Let_def host_of_def)
qed

lemma start_devices_unresolved:
  "\<forall>c\<in>set pre. resolves ifs c \<Longrightarrow> \<not> resolves ifs c \<Longrightarrow>
   start_devices ifs d u (pre @ c # post) srvs ps =
     (concat (map (\<lambda>c. start_device d (createServer ifs c) (host_of ifs c)) pre) @
      [LogError (''Failed to find IP address for MAC address '' @ mac c), Exit (- 1)], None)"
proof (induction pre arbitrary: srvs ps)
  case Nil
  then show ?case by (auto simp: Let_def resolves_def split: option.splits)
next
  case (Cons a pre)
  then obtain h where h: "getHostname (createServer ifs a) = Some h" "h \<noteq> []"
    by (auto simp: resolves_def split: option.splits)
  from Cons.prems have rest: "\<forall>c\<in>set pre. resolves ifs c" by simp
  show ?case
    using h Cons.IH [OF rest Cons.prems(2)]
    by (simp add: Let_def host_of_def)
qed

lemma lifecycle_start_device:
  "filter lifecycle (start_device d s h) = [StartServer s, Sleep 2000]"
  by (simp add: start_device_def)

lemma proxy_of_start_device: "concat (map proxy_of (start_device d s h)) = []"
  by (simp add: start_device_def)

lemma proxy_of_start_proxies: "concat (map proxy_of (concat (map start_proxy ps))) = ps"
  by (induction ps) (simp_all add: start_proxy_def)

lemma lifecycle_start_proxies: "filter lifecycle (concat (map start_proxy ps)) = []"
  by (induction ps) (simp_all add: start_proxy_def)

lemma lifecycle_devices:
  "filter lifecycle (concat (map (\<lambda>c. start_device d (f c) (g c)) cs)) =
   concat (map (\<lambda>c. [StartServer (f c), Sleep 2000]) cs)"
  by (induction cs) (simp_all add: lifecycle_start_device)

lemma proxy_of_devices:
  "concat (map proxy_of (concat (map (\<lambda>c. start_device d (f c) (g c)) cs))) = []"
  by (induction cs) (simp_all add: proxy_of_start_device)

lemma truthy_port_configured: "p \<noteq> Some 0 \<Longrightarrow> truthy_port p = configured p"
  by (cases p) (simp_all add: configured_def)

lemma push_proxies_relay_routes:
  "ports_valid c \<Longrightarrow> push_proxies u h c [] = relay_routes u h c"
  by (simp add: push_proxies_def relay_routes_def ports_valid_def truthy_port_configured Let_def)

section \<open>The claims\<close>

subsection \<open>Startup: a MAC address that does not resolve\<close>

text \<open>
  C1 (as the code has it). When the MAC address of a configured device does not resolve
  to a usable host address, the failure is reported as an error naming that MAC address
  and the process exits with code \<open>-1\<close> at once. The devices before it in the
  configuration were started, each followed by its delay; no device after it is created
  or started, and neither the discovery server nor any proxy is started. \<open>pre\<close> are
  the devices before the failing device \<open>c\<close>, \<open>post\<close> the ones after it.
\<close>

theorem mac_failure_exits:
  assumes "\<forall>c\<in>set pre. resolves interfaces c" and "\<not> resolves interfaces c"
  shows "run_config interfaces debug useDirectUrls (pre @ c # post) =
           (if useDirectUrls
            then [LogInfo ''Direct URLs enabled - proxies will be bypassed'', LogInfo []]
            else []) @
           concat (map (\<lambda>c. start_device debug (createServer interfaces c) (host_of interfaces c)) pre) @
           [LogError (''Failed to find IP address for MAC address '' @ mac c), Exit (- 1)] \<and>
         filter lifecycle (run_config interfaces debug useDirectUrls (pre @ c # post)) =
           concat (map (\<lambda>c. [StartServer (createServer interfaces c), Sleep 2000]) pre) @
           [Exit (- 1)]"
proof -
  have run: "run_config interfaces debug useDirectUrls (pre @ c # post) =
           (if useDirectUrls
            then [LogInfo ''Direct URLs enabled - proxies will be bypassed'', LogInfo []]
            else []) @
           concat (map (\<lambda>c. start_device debug (createServer interfaces c) (host_of interfaces c)) pre) @
           [LogError (''Failed to find IP address for MAC address '' @ mac c), Exit (- 1)]"
    unfolding run_config_def
    by (simp add: start_devices_unresolved [OF assms])
  show ?thesis
    unfolding run
    by (simp add: lifecycle_devices)
qed

text \<open>
  An instance: the second of three devices has no matching interface. The first is
  started, then the error is logged and the process exits; the third is never reached.
\<close>

theorem mac_failure_exits_witness:
  "resolves [(''02:00:00:00:00:02'', ''10.0.0.6'')] (camera ''Back'' ''02:00:00:00:00:02'' 8082) \<and>
   \<not> resolves [(''02:00:00:00:00:02'', ''10.0.0.6'')] (camera ''Front'' ''02:00:00:00:00:01'' 8081) \<and>
   run_config [(''02:00:00:00:00:02'', ''10.0.0.6'')] False False
     [camera ''Back'' ''02:00:00:00:00:02'' 8082, camera ''Front'' ''02:00:00:00:00:01'' 8081,
      camera ''Side'' ''02:00:00:00:00:02'' 8083] =
   start_device False
     (createServer [(''02:00:00:00:00:02'', ''10.0.0.6'')] (camera ''Back'' ''02:00:00:00:00:02'' 8082))
     ''10.0.0.6'' @
   [LogError ''Failed to find IP address for MAC address 02:00:00:00:00:01'', Exit (- 1)]"
  using mac_failure_exits [of "[camera ''Back'' ''02:00:00:00:00:02'' 8082]"
      "[(''02:00:00:00:00:02'', ''10.0.0.6'')]" "camera ''Front'' ''02:00:00:00:00:01'' 8081"
      False False "[camera ''Side'' ''02:00:00:00:00:02'' 8083]"]
  by (simp add: camera_def createServer_def getHostname_def resolves_def host_of_def)

text \<open>
  The statement that the remaining devices still attempt to start, and that the process
  does not terminate, fails: with the first of two devices unresolvable, the whole run is
  the error line and the exit, and the second device, whose MAC address does resolve, is
  not started.
\<close>

theorem mac_failure_counterexample:
  "run_config [(''02:00:00:00:00:02'', ''10.0.0.6'')] False False
     [camera ''Front'' ''02:00:00:00:00:01'' 8081, camera ''Back'' ''02:00:00:00:00:02'' 8082] =
   [LogError ''Failed to find IP address for MAC address 02:00:00:00:00:01'', Exit (- 1)]"
  by (simp add: run_config_def camera_def createServer_def getHostname_def)

subsection \<open>Discovery: the sequence counters\<close>

text \<open>
  C2. For servers with pairwise distinct UUIDs: (1) the constructor sets the counter of
  every registered device to 0; (2) in every state reached from the constructor by any
  sequence of calls in which the responder is started, delivering a probe that is
  accepted adds exactly 1 to the counter of every registered device and leaves every
  other key alone, so a probe answered for N devices increments N distinct counters by
  1 each; (3) a probe whose type filter is not accepted leaves the whole state as it was;
  (4) along any sequence of calls, whatever comes later, the counter of a registered
  device is a number that never decreases: it is never reset.
\<close>

theorem sequence_counters:
  assumes "distinct (map uuid srvs)"
  shows
   "(\<forall>info\<in>set srvs. messageCounters (constructor srvs) (uuid info) = Some (Num 0)) \<and>
    (\<forall>calls gen result remote r pu pt rel.
       responseSocket (run_calls (constructor srvs) calls) = Some r \<and>
       probe_fields result = Inr (pu, pt) \<and> wants_response pt = Inr True \<and>
       js_to_string pu = Inr rel \<longrightarrow>
       (\<forall>info\<in>set srvs. \<exists>n.
          messageCounters (run_calls (constructor srvs) calls) (uuid info) = Some (Num n) \<and>
          messageCounters
            (run_calls (constructor srvs) (calls @ [Message (Parsed result) remote gen]))
            (uuid info) = Some (Num (n + 1))) \<and>
       (\<forall>u. u \<notin> uuid ` set srvs \<longrightarrow>
          messageCounters
            (run_calls (constructor srvs) (calls @ [Message (Parsed result) remote gen])) u =
          messageCounters (run_calls (constructor srvs) calls) u)) \<and>
    (\<forall>calls gen result remote pu pt.
       probe_fields result = Inr (pu, pt) \<and> wants_response pt = Inr False \<longrightarrow>
       run_calls (constructor srvs) (calls @ [Message (Parsed result) remote gen]) =
       run_calls (constructor srvs) calls) \<and>
    (\<forall>calls more. \<forall>info\<in>set srvs. \<exists>n m.
       messageCounters (run_calls (constructor srvs) calls) (uuid info) = Some (Num n) \<and>
       messageCounters (run_calls (constructor srvs) (calls @ more)) (uuid info) = Some (Num m) \<and>
       n \<le> m)"
proof -
  have init: "\<And>info. info \<in> set srvs \<Longrightarrow>
      messageCounters (constructor srvs) (uuid info) = Some (Num 0)"
    by (simp add: constructor_def init_counters_lookup)
  have reach: "\<And>calls info. info \<in> set srvs \<Longrightarrow>
      \<exists>n. messageCounters (run_calls (constructor srvs) calls) (uuid info) = Some (Num n)"
    using run_calls_counters_mono [OF init] by blast
  have srv: "\<And>calls. servers (run_calls (constructor srvs) calls) = srvs"
    by (simp add: run_calls_servers constructor_def)
  have accepted: "\<And>calls gen result remote r pu pt rel.
       responseSocket (run_calls (constructor srvs) calls) = Some r \<Longrightarrow>
       probe_fields result = Inr (pu, pt) \<Longrightarrow> wants_response pt = Inr True \<Longrightarrow>
       js_to_string pu = Inr rel \<Longrightarrow>
       messageCounters
         (run_calls (constructor srvs) (calls @ [Message (Parsed result) remote gen])) =
       bumped (messageCounters (run_calls (constructor srvs) calls)) srvs"
  proof -
    fix calls gen result remote r pu pt rel
    assume a: "responseSocket (run_calls (constructor srvs) calls) = Some r"
       "probe_fields result = Inr (pu, pt)" "wants_response pt = Inr True"
       "js_to_string pu = Inr rel"
    have d: "distinct (map uuid (servers (run_calls (constructor srvs) calls)))"
      using assms by (simp add: srv)
    show "messageCounters
         (run_calls (constructor srvs) (calls @ [Message (Parsed result) remote gen])) =
       bumped (messageCounters (run_calls (constructor srvs) calls)) srvs"
      by (simp add: run_calls_snoc on_message_accepted [OF a(1) d a(2) a(3) a(4)] srv)
  qed
  have c1: "\<forall>info\<in>set srvs. messageCounters (constructor srvs) (uuid info) = Some (Num 0)"
    using init by blast
  have c2: "\<forall>calls gen result remote r pu pt rel.
       responseSocket (run_calls (constructor srvs) calls) = Some r \<and>
       probe_fields result = Inr (pu, pt) \<and> wants_response pt = Inr True \<and>
       js_to_string pu = Inr rel \<longrightarrow>
       (\<forall>info\<in>set srvs. \<exists>n.
          messageCounters (run_calls (constructor srvs) calls) (uuid info) = Some (Num n) \<and>
          messageCounters
            (run_calls (constructor srvs) (calls @ [Message (Parsed result) remote gen]))
            (uuid info) = Some (Num (n + 1))) \<and>
       (\<forall>u. u \<notin> uuid ` set srvs \<longrightarrow>
          messageCounters
            (run_calls (constructor srvs) (calls @ [Message (Parsed result) remote gen])) u =
          messageCounters (run_calls (constructor srvs) calls) u)"
  proof (intro allI impI, elim conjE, intro conjI ballI allI impI)
    fix calls gen result remote r pu pt rel info
    assume a: "responseSocket (run_calls (constructor srvs) calls) = Some r"
       "probe_fields result = Inr (pu, pt)" "wants_response pt = Inr True"
       "js_to_string pu = Inr rel" and i: "info \<in> set srvs"
    from reach [OF i, of calls] obtain n where
      n: "messageCounters (run_calls (constructor srvs) calls) (uuid info) = Some (Num n)" by blast
    show "\<exists>n. messageCounters (run_calls (constructor srvs) calls) (uuid info) = Some (Num n) \<and>
          messageCounters
            (run_calls (constructor srvs) (calls @ [Message (Parsed result) remote gen]))
            (uuid info) = Some (Num (n + 1))"
      using n i by (simp add: accepted [OF a] bumped_def)
  next
    fix calls gen result remote r pu pt rel u
    assume a: "responseSocket (run_calls (constructor srvs) calls) = Some r"
       "probe_fields result = Inr (pu, pt)" "wants_response pt = Inr True"
       "js_to_string pu = Inr rel" and u: "u \<notin> uuid ` set srvs"
    show "messageCounters
            (run_calls (constructor srvs) (calls @ [Message (Parsed result) remote gen])) u =
          messageCounters (run_calls (constructor srvs) calls) u"
      using u by (simp add: accepted [OF a] bumped_def)
  qed
  have c3: "\<forall>calls gen result remote pu pt.
       probe_fields result = Inr (pu, pt) \<and> wants_response pt = Inr False \<longrightarrow>
       run_calls (constructor srvs) (calls @ [Message (Parsed result) remote gen]) =
       run_calls (constructor srvs) calls"
    by (simp add: run_calls_snoc on_message_rejected)
  have c4: "\<forall>calls more. \<forall>info\<in>set srvs. \<exists>n m.
       messageCounters (run_calls (constructor srvs) calls) (uuid info) = Some (Num n) \<and>
       messageCounters (run_calls (constructor srvs) (calls @ more)) (uuid info) = Some (Num m) \<and>
       n \<le> m"
  proof (intro allI ballI)
    fix calls more info
    assume i: "info \<in> set srvs"
    from reach [OF i, of calls] obtain n where
      n: "messageCounters (run_calls (constructor srvs) calls) (uuid info) = Some (Num n)" by blast
    from run_calls_counters_mono [OF n, of more] obtain m where
      "n \<le> m" "messageCounters (run_calls (constructor srvs) (calls @ more)) (uuid info) = Some (Num m)"
      by (auto simp: run_calls_append)
    with n show "\<exists>n m.
       messageCounters (run_calls (constructor srvs) calls) (uuid info) = Some (Num n) \<and>
       messageCounters (run_calls (constructor srvs) (calls @ more)) (uuid info) = Some (Num m) \<and>
       n \<le> m" by blast
  qed
  from c1 c2 c3 c4 show ?thesis by blast
qed

text \<open>
  An instance with two devices: both counters are 0 after construction and 1 after the
  first accepted probe, and no counter appears for a UUID that was not registered.
\<close>

theorem sequence_counters_witness:
  "distinct (map uuid two_devices) \<and>
   responseSocket (run_calls (constructor two_devices) [Start (Sock 0) (Sock 1)]) = Some (Sock 1) \<and>
   messageCounters (constructor two_devices) ''uuid-1'' = Some (Num 0) \<and>
   messageCounters
     (run_calls (constructor two_devices)
        [Start (Sock 0) (Sock 1), Message (Parsed typed_probe) prober numbered_ids]) ''uuid-1'' =
     Some (Num 1) \<and>
   messageCounters
     (run_calls (constructor two_devices)
        [Start (Sock 0) (Sock 1), Message (Parsed typed_probe) prober numbered_ids]) ''uuid-2'' =
     Some (Num 1) \<and>
   messageCounters
     (run_calls (constructor two_devices)
        [Start (Sock 0) (Sock 1), Message (Parsed typed_probe) prober numbered_ids]) ''uuid-3'' =
     None"
proof -
  have d: "distinct (map uuid two_devices)"
    by (simp add: two_devices_def device_def)
  have r: "responseSocket (run_calls (constructor two_devices) [Start (Sock 0) (Sock 1)]) =
           Some (Sock 1)"
    by (simp add: run_calls_def start_def)
  have c0: "messageCounters (run_calls (constructor two_devices) [Start (Sock 0) (Sock 1)]) =
            messageCounters (constructor two_devices)"
    by (simp add: run_calls_def start_def)
  have i0: "messageCounters (constructor two_devices) ''uuid-1'' = Some (Num 0)"
       "messageCounters (constructor two_devices) ''uuid-2'' = Some (Num 0)"
       "messageCounters (constructor two_devices) ''uuid-3'' = None"
    by (simp_all add: constructor_def two_devices_def device_def)
  from sequence_counters [OF d]
  have step: "\<forall>calls gen result remote r pu pt rel.
       responseSocket (run_calls (constructor two_devices) calls) = Some r \<and>
       probe_fields result = Inr (pu, pt) \<and> wants_response pt = Inr True \<and>
       js_to_string pu = Inr rel \<longrightarrow>
       (\<forall>info\<in>set two_devices. \<exists>n.
          messageCounters (run_calls (constructor two_devices) calls) (uuid info) = Some (Num n) \<and>
          messageCounters
            (run_calls (constructor two_devices) (calls @ [Message (Parsed result) remote gen]))
            (uuid info) = Some (Num (n + 1))) \<and>
       (\<forall>u. u \<notin> uuid ` set two_devices \<longrightarrow>
          messageCounters
            (run_calls (constructor two_devices) (calls @ [Message (Parsed result) remote gen])) u =
          messageCounters (run_calls (constructor two_devices) calls) u)"
    by blast
  have "responseSocket (run_calls (constructor two_devices) [Start (Sock 0) (Sock 1)]) = Some (Sock 1) \<and>
       probe_fields typed_probe = Inr (Str ''uuid:p1'', Str ''dn:NetworkVideoTransmitter'') \<and>
       wants_response (Str ''dn:NetworkVideoTransmitter'') = Inr True \<and>
       js_to_string (Str ''uuid:p1'') = Inr ''uuid:p1''"
    using r typed_probe_fields accepts_transmitter by simp
  with step have after:
      "(\<forall>info\<in>set two_devices. \<exists>n.
          messageCounters (run_calls (constructor two_devices) [Start (Sock 0) (Sock 1)]) (uuid info) = Some (Num n) \<and>
          messageCounters
            (run_calls (constructor two_devices) ([Start (Sock 0) (Sock 1)] @ [Message (Parsed typed_probe) prober numbered_ids]))
            (uuid info) = Some (Num (n + 1))) \<and>
       (\<forall>u. u \<notin> uuid ` set two_devices \<longrightarrow>
          messageCounters
            (run_calls (constructor two_devices) ([Start (Sock 0) (Sock 1)] @ [Message (Parsed typed_probe) prober numbered_ids])) u =
          messageCounters (run_calls (constructor two_devices) [Start (Sock 0) (Sock 1)]) u)"
    by blast
  have in1: "device ''uuid-1'' ''10.0.0.5'' 8081 \<in> set two_devices"
    and in2: "device ''uuid-2'' ''10.0.0.6'' 8082 \<in> set two_devices"
    and out3: "''uuid-3'' \<notin> uuid ` set two_devices"
    by (simp_all add: two_devices_def device_def)
  have u1: "uuid (device ''uuid-1'' ''10.0.0.5'' 8081) = ''uuid-1''"
    and u2: "uuid (device ''uuid-2'' ''10.0.0.6'' 8082) = ''uuid-2''"
    by (simp_all add: device_def)
  from after in1 obtain n1 where
    "messageCounters (run_calls (constructor two_devices) [Start (Sock 0) (Sock 1)])
       (uuid (device ''uuid-1'' ''10.0.0.5'' 8081)) = Some (Num n1)"
    "messageCounters
       (run_calls (constructor two_devices)
          ([Start (Sock 0) (Sock 1)] @ [Message (Parsed typed_probe) prober numbered_ids]))
       (uuid (device ''uuid-1'' ''10.0.0.5'' 8081)) = Some (Num (n1 + 1))"
    by blast
  then have a1: "messageCounters
       (run_calls (constructor two_devices)
          [Start (Sock 0) (Sock 1), Message (Parsed typed_probe) prober numbered_ids]) ''uuid-1'' =
     Some (Num 1)"
    unfolding c0 u1 using i0(1) by simp
  from after in2 obtain n2 where
    "messageCounters (run_calls (constructor two_devices) [Start (Sock 0) (Sock 1)])
       (uuid (device ''uuid-2'' ''10.0.0.6'' 8082)) = Some (Num n2)"
    "messageCounters
       (run_calls (constructor two_devices)
          ([Start (Sock 0) (Sock 1)] @ [Message (Parsed typed_probe) prober numbered_ids]))
       (uuid (device ''uuid-2'' ''10.0.0.6'' 8082)) = Some (Num (n2 + 1))"
    by blast
  then have a2: "messageCounters
       (run_calls (constructor two_devices)
          [Start (Sock 0) (Sock 1), Message (Parsed typed_probe) prober numbered_ids]) ''uuid-2'' =
     Some (Num 1)"
    unfolding c0 u2 using i0(2) by simp
  from after out3 have
    "messageCounters
       (run_calls (constructor two_devices)
          ([Start (Sock 0) (Sock 1)] @ [Message (Parsed typed_probe) prober numbered_ids])) ''uuid-3'' =
     messageCounters (run_calls (constructor two_devices) [Start (Sock 0) (Sock 1)]) ''uuid-3''"
    by blast
  then have a3: "messageCounters
       (run_calls (constructor two_devices)
          [Start (Sock 0) (Sock 1), Message (Parsed typed_probe) prober numbered_ids]) ''uuid-3'' =
     None"
    unfolding c0 using i0(3) by simp
  from d r i0 a1 a2 a3 show ?thesis by simp
qed

subsection \<open>Discovery: the responses to an accepted probe\<close>



subsection \<open>Discovery: the type filter\<close>

text \<open>
  C4. For a started responder with at least one registered device and a probe whose
  message ID and type filter are strings: datagrams are sent if and only if the type
  filter is empty or contains \<^verbatim>\<open>NetworkVideoTransmitter\<close>. For any other type filter the
  listener sends nothing, logs nothing, changes nothing, and in both cases it returns
  without error.
\<close>

theorem responds_iff_type_accepted:
  assumes "responseSocket st = Some r" and "servers st \<noteq> []"
    and "probe_fields result = Inr (Str mid, Str ty)"
  shows
   "(filter is_send (fst (snd (on_message st gen (Parsed result) remote))) \<noteq> []) =
      (ty = [] \<or> sublist ''NetworkVideoTransmitter'' ty) \<and>
    (\<not> (ty = [] \<or> sublist ''NetworkVideoTransmitter'' ty) \<longrightarrow>
       on_message st gen (Parsed result) remote = (st, [], None)) \<and>
    snd (snd (on_message st gen (Parsed result) remote)) = None"
proof (cases "ty = [] \<or> sublist ''NetworkVideoTransmitter'' ty")
  case True
  then have w: "wants_response (Str ty) = Inr True"
    by (simp add: indexOf_found)
  have s: "js_to_string (Str mid) = Inr mid" by simp
  obtain st' effs err where sm: "send_matches st gen (Str mid) remote 0 (servers st) = (st', effs, err)"
    by (cases "send_matches st gen (Str mid) remote 0 (servers st)") auto
  from send_matches_count [OF assms(1) s, of gen remote 0 "servers st"] sm
  have "length (filter is_send effs) = length (servers st)" and "err = None" by simp_all
  with assms(2,3) w sm True show ?thesis
    by (auto simp: on_message_def on_parsed_def)
next
  case False
  then have w: "wants_response (Str ty) = Inr False"
    by (simp add: indexOf_found)
  with assms(3) False show ?thesis
    by (simp add: on_message_def on_parsed_def)
qed

text \<open>
  An instance: a probe for \<^verbatim>\<open>tns:SomeOtherDevice\<close> gets no response and changes nothing;
  a probe for \<^verbatim>\<open>dn:NetworkVideoTransmitter\<close> is answered.
\<close>

theorem responds_iff_type_accepted_witness:
  "responseSocket (started two_devices) = Some (Sock 1) \<and>
   servers (started two_devices) \<noteq> [] \<and>
   probe_fields other_probe = Inr (Str ''uuid:p2'', Str ''tns:SomeOtherDevice'') \<and>
   on_message (started two_devices) numbered_ids (Parsed other_probe) prober =
     (started two_devices, [], None) \<and>
   probe_fields typed_probe = Inr (Str ''uuid:p1'', Str ''dn:NetworkVideoTransmitter'') \<and>
   filter is_send (fst (snd (on_message (started two_devices) numbered_ids (Parsed typed_probe) prober))) \<noteq> []"
proof -
  have a: "responseSocket (started two_devices) = Some (Sock 1)"
    by (simp add: started_fields)
  have b: "servers (started two_devices) \<noteq> []"
    by (simp add: started_fields two_devices_def)
  have no: "\<not> sublist ''NetworkVideoTransmitter'' ''tns:SomeOtherDevice''"
    by code_simp
  have yes: "sublist ''NetworkVideoTransmitter'' ''dn:NetworkVideoTransmitter''"
    by code_simp
  from responds_iff_type_accepted [OF a b other_probe_fields, of numbered_ids prober] no
  have rejected: "on_message (started two_devices) numbered_ids (Parsed other_probe) prober =
     (started two_devices, [], None)"
    by simp
  from responds_iff_type_accepted [OF a b typed_probe_fields, of numbered_ids prober] yes
  have answered: "filter is_send (fst (snd (on_message (started two_devices) numbered_ids (Parsed typed_probe) prober))) \<noteq> []"
    by simp
  from a b other_probe_fields typed_probe_fields rejected answered show ?thesis by simp
qed

subsection \<open>Discovery: malformed datagrams\<close>




subsection \<open>Discovery: the two representations of a field\<close>



subsection \<open>Startup: order of the devices and the discovery server\<close>

text \<open>
  C7. When every configured device resolves its MAC address and there is at least one
  device, the lifecycle events of the run are: for each device in configuration order its
  start followed by a delay of 2000 ms, then, once, the creation of the discovery server
  with all the servers in that order, and its start. So a device is started only after
  the start and the delay of the one before it, and exactly one discovery server is
  started, after all of them.
\<close>

theorem startup_is_sequential:
  assumes "\<forall>c\<in>set configs. resolves interfaces c" and "configs \<noteq> []"
  shows "filter lifecycle (run_config interfaces debug useDirectUrls configs) =
           concat (map (\<lambda>c. [StartServer (createServer interfaces c), Sleep 2000]) configs) @
           [CreateDiscoveryServer (map (createServer interfaces) configs), DiscoveryStart]"
  unfolding run_config_def
  using assms(2)
  by (simp add: start_devices_resolved [OF assms(1)] lifecycle_devices lifecycle_start_proxies)

text \<open>
  An instance with two devices, debug output enabled.
\<close>

theorem startup_is_sequential_witness:
  "resolves [(''02:00:00:00:00:01'', ''10.0.0.5''), (''02:00:00:00:00:02'', ''10.0.0.6'')]
     (camera ''Front'' ''02:00:00:00:00:01'' 8081) \<and>
   resolves [(''02:00:00:00:00:01'', ''10.0.0.5''), (''02:00:00:00:00:02'', ''10.0.0.6'')]
     (camera ''Back'' ''02:00:00:00:00:02'' 8082) \<and>
   filter lifecycle
     (run_config [(''02:00:00:00:00:01'', ''10.0.0.5''), (''02:00:00:00:00:02'', ''10.0.0.6'')]
        True False
        [camera ''Front'' ''02:00:00:00:00:01'' 8081, camera ''Back'' ''02:00:00:00:00:02'' 8082]) =
     [StartServer \<lparr> config = camera ''Front'' ''02:00:00:00:00:01'' 8081, resolved = Some ''10.0.0.5'' \<rparr>,
      Sleep 2000,
      StartServer \<lparr> config = camera ''Back'' ''02:00:00:00:00:02'' 8082, resolved = Some ''10.0.0.6'' \<rparr>,
      Sleep 2000,
      CreateDiscoveryServer
        [\<lparr> config = camera ''Front'' ''02:00:00:00:00:01'' 8081, resolved = Some ''10.0.0.5'' \<rparr>,
         \<lparr> config = camera ''Back'' ''02:00:00:00:00:02'' 8082, resolved = Some ''10.0.0.6'' \<rparr>],
      DiscoveryStart]"
proof -
  let ?ifs = "[(''02:00:00:00:00:01'', ''10.0.0.5''), (''02:00:00:00:00:02'', ''10.0.0.6'')]"
  let ?cs = "[camera ''Front'' ''02:00:00:00:00:01'' 8081, camera ''Back'' ''02:00:00:00:00:02'' 8082]"
  have r: "resolves ?ifs (camera ''Front'' ''02:00:00:00:00:01'' 8081)"
          "resolves ?ifs (camera ''Back'' ''02:00:00:00:00:02'' 8082)"
    by (simp_all add: resolves_def createServer_def getHostname_def camera_def)
  then have all: "\<forall>c\<in>set ?cs. resolves ?ifs c" by simp
  have ne: "?cs \<noteq> []" by simp
  from startup_is_sequential [OF all ne, of True False] r show ?thesis
    by (simp add: createServer_def camera_def)
qed

subsection \<open>Discovery: binding and joining the multicast group\<close>

text \<open>
  C8. \<^verbatim>\<open>start()\<close> creates the two sockets and binds the receive socket to port 3702. The
  bind callback then attempts to join group 239.255.255.250 on the receive socket once
  for every distinct non-empty hostname of the registered devices, in the order of first
  registration: the list of interfaces is duplicate-free and its elements are exactly the
  non-empty hostnames. The attempts do not depend on which joins fail: every interface
  is attempted, a failing one is logged as an error, a succeeding one as a trace line,
  and the callback returns normally (it has no error result).
\<close>

theorem multicast_joins:
  "socket (fst (start st0 s r)) = Some s \<and>
   snd (start st0 s r) = [CreateSocket s True, CreateSocket r False, Bind s 3702] \<and>
   filter is_join (on_bound (fst (start st0 s r)) fails) =
     map (AddMembership s ''239.255.255.250'') (collect_hostnames [] (servers st0)) \<and>
   distinct (collect_hostnames [] (servers st0)) \<and>
   set (collect_hostnames [] (servers st0)) = {h \<in> hostname ` set (servers st0). h \<noteq> []} \<and>
   (\<forall>h\<in>set (collect_hostnames [] (servers st0)).
      (if fails h then Error (''Failed to join multicast group on '' @ h @ '':'')
       else Trace (''Joined multicast group on '' @ h))
      \<in> set (on_bound (fst (start st0 s r)) fails))"
  by (auto simp: start_def on_bound_def joins_of_groups collect_hostnames_set
      collect_hostnames_distinct)

text \<open>
  An instance: three devices on two interfaces, the first interface refusing the join.
  Both interfaces are attempted once, the first is logged as an error, the second as
  joined.
\<close>

theorem multicast_joins_witness:
  "filter is_join
     (on_bound (fst (start (constructor
         [device ''uuid-1'' ''10.0.0.5'' 8081, device ''uuid-2'' ''10.0.0.5'' 8082,
          device ''uuid-3'' ''10.0.0.6'' 8083]) (Sock 0) (Sock 1)))
       ((=) ''10.0.0.5'')) =
     [AddMembership (Sock 0) ''239.255.255.250'' ''10.0.0.5'',
      AddMembership (Sock 0) ''239.255.255.250'' ''10.0.0.6''] \<and>
   Error ''Failed to join multicast group on 10.0.0.5:'' \<in>
     set (on_bound (fst (start (constructor
         [device ''uuid-1'' ''10.0.0.5'' 8081, device ''uuid-2'' ''10.0.0.5'' 8082,
          device ''uuid-3'' ''10.0.0.6'' 8083]) (Sock 0) (Sock 1)))
       ((=) ''10.0.0.5'')) \<and>
   Trace ''Joined multicast group on 10.0.0.6'' \<in>
     set (on_bound (fst (start (constructor
         [device ''uuid-1'' ''10.0.0.5'' 8081, device ''uuid-2'' ''10.0.0.5'' 8082,
          device ''uuid-3'' ''10.0.0.6'' 8083]) (Sock 0) (Sock 1)))
       ((=) ''10.0.0.5''))"
  using multicast_joins [of "constructor
         [device ''uuid-1'' ''10.0.0.5'' 8081, device ''uuid-2'' ''10.0.0.5'' 8082,
          device ''uuid-3'' ''10.0.0.6'' 8083]" "Sock 0" "Sock 1" "(=) ''10.0.0.5''"]
  by (simp add: constructor_def device_def)

subsection \<open>Discovery: stop\<close>

text \<open>
  C9. \<^verbatim>\<open>stop()\<close> is idempotent. Whatever the state, the call closes exactly the sockets
  that are open (the receive socket first), leaves both references null and touches
  nothing else; a second call on the resulting state returns that state unchanged with
  no effect at all. A call never raises: \<open>stop\<close> has no error result.
\<close>

theorem stop_idempotent:
  "socket (fst (stop st)) = None \<and>
   responseSocket (fst (stop st)) = None \<and>
   snd (stop st) =
     (case socket st of Some s \<Rightarrow> [Close s] | None \<Rightarrow> []) @
     (case responseSocket st of Some r \<Rightarrow> [Close r] | None \<Rightarrow> []) \<and>
   servers (fst (stop st)) = servers st \<and>
   messageCounters (fst (stop st)) = messageCounters st \<and>
   stop (fst (stop st)) = (fst (stop st), [])"
  by (cases "socket st"; cases "responseSocket st") (simp_all add: stop_def)

subsection \<open>Startup: relay routes\<close>

text \<open>
  C10. When every configured device resolves its MAC address and the configuration is
  valid (no port it gives is 0, which JavaScript would treat as missing), the proxies
  created by the run are, device by device in configuration order, the relay routes of
  the specification: in direct-URL mode none; otherwise an RTSP route if and only if
  both the device's RTSP port and the target's RTSP port are configured, then a
  snapshot route if and only if both snapshot ports are configured.
\<close>

theorem relay_routes_requested:
  assumes "\<forall>c\<in>set configs. resolves interfaces c" and "\<forall>c\<in>set configs. ports_valid c"
  shows "concat (map proxy_of (run_config interfaces debug useDirectUrls configs)) =
           concat (map (\<lambda>c. relay_routes useDirectUrls (host_of interfaces c) c) configs)"
proof -
  have routes: "map (\<lambda>c. push_proxies useDirectUrls (host_of interfaces c) c []) configs =
        map (\<lambda>c. relay_routes useDirectUrls (host_of interfaces c) c) configs"
    using assms(2) by (simp add: push_proxies_relay_routes)
  show ?thesis
    unfolding run_config_def
    by (auto simp: start_devices_resolved [OF assms(1)] proxy_of_devices proxy_of_start_proxies
        routes)
qed

text \<open>
  An instance: a device with both RTSP ports and no snapshot port of its own gets the
  RTSP route only; in direct-URL mode it gets none.
\<close>

theorem relay_routes_requested_witness:
  "resolves [(''02:00:00:00:00:01'', ''10.0.0.5'')] (camera ''Front'' ''02:00:00:00:00:01'' 8081) \<and>
   ports_valid (camera ''Front'' ''02:00:00:00:00:01'' 8081) \<and>
   concat (map proxy_of
     (run_config [(''02:00:00:00:00:01'', ''10.0.0.5'')] False False
        [camera ''Front'' ''02:00:00:00:00:01'' 8081])) =
     [\<lparr> sourceHostname = ''10.0.0.5'', sourcePort = Some 8554,
        targetHostname = ''192.168.1.20'', targetPort = Some 554 \<rparr>] \<and>
   concat (map proxy_of
     (run_config [(''02:00:00:00:00:01'', ''10.0.0.5'')] False True
        [camera ''Front'' ''02:00:00:00:00:01'' 8081])) = []"
proof -
  let ?ifs = "[(''02:00:00:00:00:01'', ''10.0.0.5'')]"
  let ?cs = "[camera ''Front'' ''02:00:00:00:00:01'' 8081]"
  have r: "resolves ?ifs (camera ''Front'' ''02:00:00:00:00:01'' 8081)"
    by (simp add: resolves_def createServer_def getHostname_def camera_def)
  have v: "ports_valid (camera ''Front'' ''02:00:00:00:00:01'' 8081)"
    by (simp add: ports_valid_def camera_def)
  from r have all: "\<forall>c\<in>set ?cs. resolves ?ifs c" by simp
  from v have valid: "\<forall>c\<in>set ?cs. ports_valid c" by simp
  from relay_routes_requested [OF all valid, of False False]
       relay_routes_requested [OF all valid, of False True] r v
  show ?thesis
    by (simp add: relay_routes_def configured_def host_of_def createServer_def getHostname_def
        camera_def)
qed

end
